theory Spec2Isabelle
  imports Complex_Main "HOL-Library.Char_ord" "HOL-Library.List_Lexorder"
begin

section \<open>Python primitives\<close>

text \<open>
  \<^verbatim>\<open>str(n)\<close> of a non-negative integer: its decimal digits, most significant first.
  Strings are byte lists; their order (from \<open>List_Lexorder\<close> and \<open>Char_ord\<close>) is the
  lexicographic order on character codes, which is how Python compares \<^verbatim>\<open>str\<close>.
\<close>

function str_nat :: "nat \<Rightarrow> string" where
  "str_nat n =
     (if n < 10 then [''0123456789'' ! n]
      else str_nat (n div 10) @ [''0123456789'' ! (n mod 10)])"
  by pat_completeness auto
termination
  by (relation "measure id") auto

declare str_nat.simps [simp del]

definition str_int :: "int \<Rightarrow> string" where
  "str_int i = (if i < 0 then CHR ''-'' # str_nat (nat (- i)) else str_nat (nat i))"

text \<open>\<^verbatim>\<open>list(range(start, stop, step))\<close> for a positive step.\<close>

definition py_range :: "int \<Rightarrow> int \<Rightarrow> int \<Rightarrow> int list" where
  "py_range start stop step =
     map (\<lambda>k. start + step * int k) [0..<nat ((stop - start + step - 1) div step)]"

section \<open>pandas and numpy primitives\<close>

text \<open>
  The exceptions the script can meet. \<open>FileNotFoundError\<close>, \<open>OSError\<close> (any other failure
  to open the file), \<open>UnicodeDecodeError\<close>, \<open>ParserError\<close> and \<open>EmptyDataError\<close> come from
  \<^verbatim>\<open>pd.read_csv\<close>, \<open>KeyError\<close> from selecting an absent column (or label 0 of an empty
  result), \<open>TypeError\<close> from subtracting a string from a number, \<open>ZeroDivisionError\<close>
  from Python's \<^verbatim>\<open>/\<close>, \<open>ValueError\<close> from \<^verbatim>\<open>idxmax\<close> of an all-missing column and from
  \<^verbatim>\<open>int\<close> of \<^verbatim>\<open>nan\<close>.
\<close>

datatype error =
  FileNotFoundError | OSError | UnicodeDecodeError | ParserError | EmptyDataError
| KeyError | TypeError | ZeroDivisionError | ValueError

text \<open>A missing cell (\<^verbatim>\<open>NaN\<close>) of a column is \<open>None\<close>. A float result is a real or \<^verbatim>\<open>nan\<close>.\<close>

datatype pyfloat = Float real | NaN

definition dropna :: "'a option list \<Rightarrow> 'a list" where
  "dropna col = List.map_filter (\<lambda>c. c) col"

text \<open>\<^verbatim>\<open>Series.unique()\<close>: the distinct values in order of first appearance.\<close>

definition unique :: "'a list \<Rightarrow> 'a list" where
  "unique xs = rev (remdups (rev xs))"

text \<open>\<^verbatim>\<open>Series.isin(values)\<close>: a boolean mask; a missing cell is in no list of labels.\<close>

definition isin :: "'a option list \<Rightarrow> 'a list \<Rightarrow> bool list" where
  "isin col vals = map (\<lambda>c. case c of None \<Rightarrow> False | Some v \<Rightarrow> v \<in> set vals) col"

text \<open>\<^verbatim>\<open>mask1 & mask2\<close> and \<^verbatim>\<open>df[mask]\<close>.\<close>

definition mask_and :: "bool list \<Rightarrow> bool list \<Rightarrow> bool list" where
  "mask_and a b = map2 (\<and>) a b"

definition boolean_index :: "'a list \<Rightarrow> bool list \<Rightarrow> 'a list" where
  "boolean_index rs m = map fst (filter snd (zip rs m))"

text \<open>\<^verbatim>\<open>Series.map(dict)\<close>: a value that is missing or not a key becomes missing.\<close>

definition series_map :: "('a \<rightharpoonup> 'b) \<Rightarrow> 'a option list \<Rightarrow> 'b option list" where
  "series_map d col = map (\<lambda>c. Option.bind c d) col"

text \<open>
  \<^verbatim>\<open>pd.cut(x, bins=bs, labels=ls, right=False)\<close> with explicit, increasing bin edges:
  pandas computes \<^verbatim>\<open>ids = bs.searchsorted(x, side="right")\<close>, the number of edges
  \<open>\<le> x\<close>, makes the cell missing when \<^verbatim>\<open>ids == 0\<close> or \<^verbatim>\<open>ids == len(bs)\<close>, and takes
  label \<^verbatim>\<open>ids - 1\<close> otherwise.
\<close>

definition searchsorted_right :: "int list \<Rightarrow> int \<Rightarrow> nat" where
  "searchsorted_right bs x = length (takeWhile (\<lambda>b. b \<le> x) bs)"

definition cut_value :: "int list \<Rightarrow> string list \<Rightarrow> int \<Rightarrow> string option" where
  "cut_value bs ls x =
     (let ids = searchsorted_right bs x
      in if ids = 0 \<or> ids = length bs then None else Some (ls ! (ids - 1)))"

text \<open>\<^verbatim>\<open>Series.mean()\<close> of a column without missing cells; \<^verbatim>\<open>nan\<close> when it is empty.\<close>

definition mean :: "int list \<Rightarrow> pyfloat" where
  "mean xs = (if xs = [] then NaN else Float (real_of_int (sum_list xs) / real (length xs)))"

text \<open>
  \<^verbatim>\<open>Series.mode()\<close> (with its default \<^verbatim>\<open>dropna=True\<close>): the non-missing values of the
  highest frequency, sorted ascending.
\<close>

definition mode :: "string option list \<Rightarrow> string list" where
  "mode col =
     (let vs = dropna col; keys = unique vs;
          top = foldr max (map (count_list vs) keys) 0
      in sort (filter (\<lambda>k. count_list vs k = top) keys))"

text \<open>\<^verbatim>\<open>s[0]\<close> on the result of \<^verbatim>\<open>mode()\<close>: label 0, a \<open>KeyError\<close> when there is none.\<close>

definition item0 :: "'a list \<Rightarrow> error + 'a" where
  "item0 xs = (case xs of [] \<Rightarrow> Inl KeyError | x # _ \<Rightarrow> Inr x)"

text \<open>
  numpy's global generator. Its algorithm is the library's and is taken as a parameter:
  \<open>rng_seed s\<close> is the global state after \<^verbatim>\<open>np.random.seed(s)\<close>; \<open>rng_draw g n i\<close> says
  whether draw \<open>i\<close> of \<^verbatim>\<open>np.random.choice(a, size=n)\<close>, started in state \<open>g\<close> on a
  two-element \<open>a\<close>, picks the second element; \<open>rng_after g n\<close> is the state it leaves.
\<close>

record 'g np_random =
  rng_seed :: "nat \<Rightarrow> 'g"
  rng_draw :: "'g \<Rightarrow> nat \<Rightarrow> nat \<Rightarrow> bool"
  rng_after :: "'g \<Rightarrow> nat \<Rightarrow> 'g"

definition random_choice :: "'g np_random \<Rightarrow> 'g \<Rightarrow> 'a \<times> 'a \<Rightarrow> nat \<Rightarrow> 'a list \<times> 'g" where
  "random_choice R g a n =
     (map (\<lambda>i. if rng_draw R g n i then snd a else fst a) [0..<n], rng_after R g n)"

section \<open>The data model\<close>

text \<open>
  A cell of the \<^verbatim>\<open>Year_Birth\<close> column as the reader leaves it: an integer, or text that
  is not a number (the reader then gives the whole column the dtype \<^verbatim>\<open>object\<close>).
\<close>

datatype cell = Number int | Text string

text \<open>
  One data row of the input file. Only the columns the script reads are represented. A
  cell of a column that the header does not have is never read. The cells of the six
  spend columns are numbers or empty, as in the data set the script is written for: what
  the row sum of the script does with text in these columns depends on the other cells
  of the row and on the library's version, and is not modelled. An empty or fractional
  \<^verbatim>\<open>Year_Birth\<close> cell (a float column) is not represented either.
\<close>

record raw_row =
  Year_Birth :: cell
  Marital_Status :: "string option"
  Gender :: "string option"
  MntWines :: "int option"
  MntFruits :: "int option"
  MntMeatProducts :: "int option"
  MntFishProducts :: "int option"
  MntSweetProducts :: "int option"
  MntGoldProds :: "int option"

record csv_table =
  header :: "string list"
  body :: "raw_row list"

text \<open>
  What the reader finds at a path: nothing (\<open>None\<close>), something it cannot open (a
  directory, a file without read permission), bytes it cannot decode, a data row with
  more fields than the tokeniser expects, or a table. A table without a header is a file
  with no line to take the columns from.
\<close>

datatype csv_file = Unreadable | Undecodable | Malformed | Table csv_table

type_synonym filesystem = "string \<Rightarrow> csv_file option"

text \<open>A row of the data frame that \<^verbatim>\<open>cargar_datos\<close> returns, and the frame itself.\<close>

record row =
  source :: raw_row
  Edad :: int
  GastoTotal :: int
  EstadoCivil :: "string option"
  Genero :: "string option"
  RangoEdad :: "string option"

record dataframe =
  columns :: "string list"
  rows :: "row list"

section \<open>Loading and preprocessing: \<^verbatim>\<open>cargar_datos\<close>\<close>

text \<open>
  \<^verbatim>\<open>pd.read_csv(path, sep=";")\<close>: fails when the file cannot be opened, decoded or
  tokenised, and with \<open>EmptyDataError\<close> when it has no header line. A header with no
  data row below it is read as an empty frame.
\<close>

definition read_csv :: "filesystem \<Rightarrow> string \<Rightarrow> error + csv_table" where
  "read_csv fs path =
     (case fs path of
        None \<Rightarrow> Inl FileNotFoundError
      | Some Unreadable \<Rightarrow> Inl OSError
      | Some Undecodable \<Rightarrow> Inl UnicodeDecodeError
      | Some Malformed \<Rightarrow> Inl ParserError
      | Some (Table t) \<Rightarrow> if header t = [] then Inl EmptyDataError else Inr t)"

text \<open>
  \<^verbatim>\<open>current_year - df["Year_Birth"]\<close>: element by element; a number minus a string
  raises \<open>TypeError\<close>.
\<close>

fun rsub :: "int \<Rightarrow> cell list \<Rightarrow> error + int list" where
  "rsub a [] = Inr []"
| "rsub a (Number v # cs) = map_sum id ((#) (a - v)) (rsub a cs)"
| "rsub a (Text s # cs) = Inl TypeError"

definition cols :: "string list" where
  "cols = [''MntWines'', ''MntFruits'', ''MntMeatProducts'',
           ''MntFishProducts'', ''MntSweetProducts'', ''MntGoldProds'']"

definition fillna :: "int \<Rightarrow> int option \<Rightarrow> int" where
  "fillna d c = (case c of None \<Rightarrow> d | Some v \<Rightarrow> v)"

definition gasto_total :: "raw_row \<Rightarrow> int" where
  "gasto_total r =
     sum_list (map (fillna 0)
       [MntWines r, MntFruits r, MntMeatProducts r,
        MntFishProducts r, MntSweetProducts r, MntGoldProds r])"

definition bins :: "int list" where
  "bins = py_range 10 101 10"

definition labels :: "string list" where
  "labels = map (\<lambda>i. str_int i @ ''-'' @ str_int (i + 9)) (butlast bins)"

definition gender_dict :: "string \<rightharpoonup> string" where
  "gender_dict = map_of [(''M'', ''Hombre''), (''F'', ''Mujer'')]"

definition rename_column :: "string \<Rightarrow> string" where
  "rename_column c = (if c = ''Marital_Status'' then ''EstadoCivil'' else c)"

text \<open>The row of the returned frame, from the file's row, its age and its gender.\<close>

definition enrich :: "raw_row \<Rightarrow> int \<Rightarrow> string option \<Rightarrow> row" where
  "enrich r edad g =
     \<lparr>source = r,
      Edad = edad,
      GastoTotal = gasto_total r,
      EstadoCivil = Marital_Status r,
      Genero = g,
      RangoEdad = cut_value bins labels edad\<rparr>"

text \<open>
  \<open>cargar_datos R current_year fs g path\<close>: \<open>current_year\<close> is the clock's year at the
  call, \<open>g\<close> the state of numpy's global generator before it. The result carries the
  generator's state after the call.
\<close>

definition cargar_datos ::
  "'g np_random \<Rightarrow> int \<Rightarrow> filesystem \<Rightarrow> 'g \<Rightarrow> string \<Rightarrow> error + (dataframe \<times> 'g)" where
  "cargar_datos R current_year fs g path =
     (case read_csv fs path of
        Inl e \<Rightarrow> Inl e
      | Inr t \<Rightarrow>
          if ''Year_Birth'' \<notin> set (header t) then Inl KeyError
          else
            (case rsub current_year (map Year_Birth (body t)) of
               Inl e \<Rightarrow> Inl e
             | Inr edad \<Rightarrow>
                 if \<not> set cols \<subseteq> set (header t) then Inl KeyError
                 else
                   let (genero, g') =
                         (if ''Gender'' \<in> set (header t)
                          then (series_map gender_dict (map Gender (body t)), g)
                          else let (a, g1) = random_choice R (rng_seed R 42)
                                               (''Hombre'', ''Mujer'') (length (body t))
                               in (map Some a, g1))
                   in Inr (\<lparr>columns = map rename_column (header t)
                                        @ [''Edad'', ''GastoTotal'', ''Genero'', ''RangoEdad''],
                             rows = map (\<lambda>(r, e, c). enrich r e c)
                                      (zip (body t) (zip edad genero))\<rparr>, g')))"

section \<open>The sidebar filters\<close>

text \<open>
  The options of the three \<^verbatim>\<open>multiselect\<close> widgets: \<^verbatim>\<open>df[c].dropna().unique()\<close>. The
  widgets' default selection is the whole list of options.
\<close>

definition estados_civiles :: "row list \<Rightarrow> string list" where
  "estados_civiles df = unique (dropna (map EstadoCivil df))"

definition rangos_edades :: "row list \<Rightarrow> string list" where
  "rangos_edades df = unique (dropna (map RangoEdad df))"

definition generos :: "row list \<Rightarrow> string list" where
  "generos df = unique (dropna (map Genero df))"

definition df_filtrado :: "row list \<Rightarrow> string list \<Rightarrow> string list \<Rightarrow> string list \<Rightarrow> row list" where
  "df_filtrado df filtros_estado filtros_edad filtros_genero =
     boolean_index df
       (mask_and
         (mask_and (isin (map EstadoCivil df) filtros_estado)
                   (isin (map RangoEdad df) filtros_edad))
         (isin (map Genero df) filtros_genero))"

section \<open>The metrics\<close>

text \<open>
  The four \<^verbatim>\<open>st.metric\<close> cells. The first shows \<^verbatim>\<open>len(df_filtrado)\<close> and, as its delta,
  \<^verbatim>\<open>len(df_filtrado)/len(df)*100\<close>; the second and third show a mean; the fourth shows
  the dominant gender with its count, or the literal \<^verbatim>\<open>"N/A"\<close>. The formatting of the
  numbers into text is not modelled.
\<close>

datatype dominant = Dominant string nat | NA

record metrics =
  clientes :: nat
  del_total :: real
  gasto_prom :: pyfloat
  edad_prom :: pyfloat
  genero :: dominant

definition py_div :: "nat \<Rightarrow> nat \<Rightarrow> error + real" where
  "py_div a b = (if b = 0 then Inl ZeroDivisionError else Inr (real a / real b))"

definition genero_dominante :: "row list \<Rightarrow> error + dominant" where
  "genero_dominante sub =
     (if sub \<noteq> [] then
        (case item0 (mode (map Genero sub)) of
           Inl e \<Rightarrow> Inl e
         | Inr genero_dom \<Rightarrow>
             Inr (Dominant genero_dom (count_list (map Genero sub) (Some genero_dom))))
      else Inr NA)"

definition metricas :: "row list \<Rightarrow> row list \<Rightarrow> error + metrics" where
  "metricas df sub =
     (case py_div (length sub) (length df) of
        Inl e \<Rightarrow> Inl e
      | Inr q \<Rightarrow>
          (case genero_dominante sub of
             Inl e \<Rightarrow> Inl e
           | Inr gd \<Rightarrow>
               Inr \<lparr>clientes = length sub,
                    del_total = q * 100,
                    gasto_prom = mean (map GastoTotal sub),
                    edad_prom = mean (map Edad sub),
                    genero = gd\<rparr>))"

section \<open>Mean spend by age bracket, and the insights\<close>

text \<open>
  \<^verbatim>\<open>df_filtrado.groupby("RangoEdad")["GastoTotal"].mean().reset_index()\<close>. The column is
  categorical, with the categories \<open>labels\<close> in this order (from \<^verbatim>\<open>pd.cut\<close>), whatever
  subset is grouped. The script does not pass \<^verbatim>\<open>observed\<close>, so the library's default
  decides which categories get a row: all of them when it is \<^verbatim>\<open>False\<close> (pandas 1 and 2),
  only those with a row in the subset when it is \<^verbatim>\<open>True\<close> (pandas 3). The default is
  the parameter \<open>observed\<close>. Rows come in the order of the categories; rows of the subset
  with a missing bracket belong to no group; the mean of an empty group is \<^verbatim>\<open>nan\<close>.
\<close>

definition gasto_por_rango :: "bool \<Rightarrow> row list \<Rightarrow> (string \<times> pyfloat) list" where
  "gasto_por_rango observed sub =
     map (\<lambda>l. (l, mean (map GastoTotal (filter (\<lambda>r. RangoEdad r = Some l) sub))))
       (if observed then filter (\<lambda>l. Some l \<in> set (map RangoEdad sub)) labels else labels)"

text \<open>\<^verbatim>\<open>Series.median()\<close> of an integer column, and \<^verbatim>\<open>int(x)\<close> of a float.\<close>

definition median :: "int list \<Rightarrow> pyfloat" where
  "median xs =
     (let s = sort xs; n = length s
      in if n = 0 then NaN
         else if odd n then Float (real_of_int (s ! (n div 2)))
         else Float ((real_of_int (s ! (n div 2 - 1)) + real_of_int (s ! (n div 2))) / 2))"

definition py_int :: "pyfloat \<Rightarrow> error + int" where
  "py_int x =
     (case x of
        NaN \<Rightarrow> Inl ValueError
      | Float v \<Rightarrow> Inr (if 0 \<le> v then \<lfloor>v\<rfloor> else \<lceil>v\<rceil>))"

text \<open>
  \<^verbatim>\<open>Series.idxmax()\<close>: the position of the first occurrence of the largest value, missing
  values skipped; an exception when every value is missing.
\<close>

definition idxmax :: "pyfloat list \<Rightarrow> error + nat" where
  "idxmax ys =
     (let vs = concat (map (\<lambda>y. case y of Float v \<Rightarrow> [v] | NaN \<Rightarrow> []) ys)
      in if vs = [] then Inl ValueError
         else Inr (length (takeWhile (\<lambda>y. y \<noteq> Float (Max (set vs))) ys)))"

record insights =
  pub_objetivo :: int
  gasto_top :: "string \<times> pyfloat"
  estado_comun :: string

definition insights_of :: "row list \<Rightarrow> (string \<times> pyfloat) list \<Rightarrow> error + insights" where
  "insights_of sub por_rango =
     (case idxmax (map snd por_rango) of
        Inl e \<Rightarrow> Inl e
      | Inr i \<Rightarrow>
          (case py_int (median (map Edad sub)) of
             Inl e \<Rightarrow> Inl e
           | Inr p \<Rightarrow>
               (case item0 (mode (map EstadoCivil sub)) of
                  Inl e \<Rightarrow> Inl e
                | Inr ec \<Rightarrow>
                    Inr \<lparr>pub_objetivo = p, gasto_top = por_rango ! i, estado_comun = ec\<rparr>)))"

section \<open>The script\<close>

text \<open>
  One run of the script. The selections of the three widgets are the user's input and
  are arguments; the widgets offer the options above and start with all of them
  selected. Selecting column \<^verbatim>\<open>EstadoCivil\<close> for the options fails when the file has
  no \<^verbatim>\<open>Marital_Status\<close> column to rename. After the metrics,
  \<^verbatim>\<open>st.stop()\<close> ends the run when the filtered frame is empty: the page then holds the
  metrics only. Otherwise the figures and the insights follow. Of the figures, the
  model keeps the table the script computes for the bar chart, which the insights
  read as well; the others are drawn by the plotting library from the filtered frame.
\<close>

datatype page =
  Stopped metrics
| Rendered metrics "(string \<times> pyfloat) list" insights

definition main ::
  "'g np_random \<Rightarrow> bool \<Rightarrow> int \<Rightarrow> filesystem \<Rightarrow> 'g
     \<Rightarrow> string list \<Rightarrow> string list \<Rightarrow> string list \<Rightarrow> error + page" where
  "main R observed current_year fs g filtros_estado filtros_edad filtros_genero =
     (case cargar_datos R current_year fs g ''marketing_campaign.csv'' of
        Inl e \<Rightarrow> Inl e
      | Inr (d, g') \<Rightarrow>
          if ''EstadoCivil'' \<notin> set (columns d) then Inl KeyError
          else
            let df = rows d;
                sub = df_filtrado df filtros_estado filtros_edad filtros_genero
            in (case metricas df sub of
                  Inl e \<Rightarrow> Inl e
                | Inr m \<Rightarrow>
                    if sub = [] then Inr (Stopped m)
                    else
                      let por_rango = gasto_por_rango observed sub
                      in (case insights_of sub por_rango of
                            Inl e \<Rightarrow> Inl e
                          | Inr ins \<Rightarrow> Inr (Rendered m por_rango ins))))"

section \<open>Sample inputs\<close>

text \<open>
  A small generator and a few files for running the script on concrete inputs: the
  header without and with the optional \<^verbatim>\<open>Gender\<close> column, customers born in 1990, 1985
  and 1893, and a file that holds the header line only.
\<close>

definition demo_rng :: "nat np_random" where
  "demo_rng = \<lparr>rng_seed = (\<lambda>s. s), rng_draw = (\<lambda>g n i. odd (g + i)), rng_after = (\<lambda>g n. g + n)\<rparr>"

definition full_header :: "string list" where
  "full_header = [''Year_Birth'', ''Marital_Status''] @ cols"

definition cliente ::
  "int \<Rightarrow> string option \<Rightarrow> string option \<Rightarrow> int option \<Rightarrow> int option \<Rightarrow> raw_row" where
  "cliente yb ms gd wines fruits =
     \<lparr>Year_Birth = Number yb, Marital_Status = ms, Gender = gd, MntWines = wines, MntFruits = fruits,
      MntMeatProducts = None, MntFishProducts = None, MntSweetProducts = None,
      MntGoldProds = None\<rparr>"

definition file_of :: "csv_table \<Rightarrow> filesystem" where
  "file_of t = (\<lambda>p. if p = ''marketing_campaign.csv'' then Some (Table t) else None)"

definition muestra :: csv_table where
  "muestra =
     \<lparr>header = full_header,
      body = [cliente 1990 (Some ''Single'') None (Some 100) None,
              cliente 1985 (Some ''Married'') None None (Some 200),
              cliente 1893 (Some ''Single'') None None None]\<rparr>"

definition muestra_gender :: csv_table where
  "muestra_gender =
     \<lparr>header = ''Gender'' # full_header,
      body = [cliente 1990 (Some ''Single'') (Some ''F'') None None,
              cliente 1985 (Some ''Married'') None None None]\<rparr>"

definition solo_cabecera :: csv_table where
  "solo_cabecera = \<lparr>header = full_header, body = []\<rparr>"



section \<open>Facts about the primitives\<close>

lemma isin_map: "isin (map f xs) vs = map (\<lambda>x. f x \<in> Some ` set vs) xs"
  by (auto simp: isin_def split: option.splits)

lemma mask_and_map: "mask_and (map P xs) (map Q xs) = map (\<lambda>x. P x \<and> Q x) xs"
  by (induction xs) (simp_all add: mask_and_def)

lemma boolean_index_map: "boolean_index xs (map P xs) = filter P xs"
  by (induction xs) (simp_all add: boolean_index_def)

lemma set_dropna: "set (dropna col) = {v. Some v \<in> set col}"
  by (induction col) (auto simp: dropna_def List.map_filter_simps split: option.splits)

lemma count_list_dropna: "count_list (dropna col) k = count_list col (Some k)"
  by (induction col) (auto simp: dropna_def List.map_filter_simps split: option.splits)

lemma set_unique: "set (unique xs) = set xs"
  by (simp add: unique_def)

lemma in_options:
  "c \<in> Some ` set (unique (dropna (map f df))) \<longleftrightarrow> c \<noteq> None \<and> c \<in> f ` set df"
  by (cases c) (force simp: set_unique set_dropna image_iff)+

lemma count_list_pos: "0 < count_list xs x \<longleftrightarrow> x \<in> set xs"
  using count_list_0_iff [of xs x] by auto

lemma foldr_max_ge: "x \<in> set xs \<Longrightarrow> x \<le> foldr max xs (0::nat)"
  by (induction xs) auto

lemma foldr_max_mem: "xs \<noteq> [] \<Longrightarrow> foldr max xs (0::nat) \<in> set xs"
proof (induction xs)
  case Nil
  then show ?case by simp
next
  case (Cons x xs)
  show ?case
  proof (cases "xs = []")
    case True
    then show ?thesis by simp
  next
    case False
    with Cons.IH have "foldr max xs 0 \<in> set xs" by simp
    moreover have "max x (foldr max xs 0) = x \<or> max x (foldr max xs 0) = foldr max xs 0"
      by (simp add: max_def)
    ultimately show ?thesis by auto
  qed
qed

lemma item0_sorted:
  assumes "xs \<noteq> []" "sorted xs"
  obtains m where "item0 xs = Inr m" "m \<in> set xs" "\<forall>k \<in> set xs. m \<le> k"
  using assms by (cases xs) (auto simp: item0_def)

text \<open>
  What \<^verbatim>\<open>mode()[0]\<close> returns on a column with a value: a most frequent value, the
  smallest of them in the order of strings.
\<close>

lemma mode_first:
  assumes "Some v \<in> set col"
  obtains m where "item0 (mode col) = Inr m" "Some m \<in> set col"
    "\<forall>k. count_list col (Some k) \<le> count_list col (Some m)"
    "\<forall>k. count_list col (Some k) = count_list col (Some m) \<longrightarrow> m \<le> k"
proof -
  define keys where "keys = unique (dropna col)"
  define cnt where "cnt = (\<lambda>k. count_list col (Some k))"
  define top where "top = foldr max (map cnt keys) 0"
  have keys: "set keys = {k. Some k \<in> set col}"
    by (simp add: keys_def set_unique set_dropna)
  have mode: "mode col = sort (filter (\<lambda>k. cnt k = top) keys)"
    by (simp add: mode_def Let_def keys_def top_def cnt_def count_list_dropna [abs_def])
  have "v \<in> set keys" using assms keys by simp
  then have "map cnt keys \<noteq> []" by auto
  then have "top \<in> set (map cnt keys)"
    unfolding top_def by (rule foldr_max_mem)
  then obtain k0 where k0: "k0 \<in> set keys" "cnt k0 = top" by auto
  have le_top: "cnt k \<le> top" for k
  proof (cases "k \<in> set keys")
    case True
    then show ?thesis unfolding top_def by (intro foldr_max_ge) simp
  next
    case False
    then have "cnt k = 0" by (simp add: keys cnt_def count_list_0_iff)
    then show ?thesis by simp
  qed
  have pos: "0 < top"
  proof -
    have "0 < cnt v" using assms by (simp add: cnt_def count_list_pos)
    with le_top [of v] show ?thesis by simp
  qed
  have set_mode: "set (mode col) = {k \<in> set keys. cnt k = top}"
    by (auto simp: mode)
  with k0 have "mode col \<noteq> []" by auto
  moreover have "sorted (mode col)" by (simp add: mode)
  ultimately obtain m where m: "item0 (mode col) = Inr m" "m \<in> set (mode col)"
    "\<forall>k \<in> set (mode col). m \<le> k"
    by (rule item0_sorted)
  from m(2) set_mode have mk: "m \<in> set keys" "cnt m = top" by auto
  have "Some m \<in> set col" using mk(1) keys by simp
  moreover have "\<forall>k. cnt k \<le> cnt m" using le_top mk(2) by simp
  moreover have "\<forall>k. cnt k = cnt m \<longrightarrow> m \<le> k"
  proof (intro allI impI)
    fix k assume "cnt k = cnt m"
    with mk(2) pos have kt: "cnt k = top" and kp: "0 < cnt k" by simp_all
    from kp have "k \<in> set keys" by (simp add: keys cnt_def count_list_pos)
    with kt have "k \<in> set (mode col)" by (simp add: set_mode)
    with m(3) show "m \<le> k" by blast
  qed
  ultimately show thesis
    using m(1) that unfolding cnt_def by blast
qed

section \<open>Facts about the age brackets\<close>

lemma bins_eq: "bins = [10, 20, 30, 40, 50, 60, 70, 80, 90, 100]"
  by (simp add: bins_def py_range_def upt_conv_Cons)

lemma labels_eq:
  "labels = [''10-19'', ''20-29'', ''30-39'', ''40-49'', ''50-59'',
             ''60-69'', ''70-79'', ''80-89'', ''90-99'']"
  by (simp add: labels_def bins_eq str_int_def str_nat.simps)

lemma str_int_decades:
  "str_int 10 = ''10''" "str_int 20 = ''20''" "str_int 30 = ''30''" "str_int 40 = ''40''"
  "str_int 50 = ''50''" "str_int 60 = ''60''" "str_int 70 = ''70''" "str_int 80 = ''80''"
  "str_int 90 = ''90''"
  "str_int 19 = ''19''" "str_int 29 = ''29''" "str_int 39 = ''39''" "str_int 49 = ''49''"
  "str_int 59 = ''59''" "str_int 69 = ''69''" "str_int 79 = ''79''" "str_int 89 = ''89''"
  "str_int 99 = ''99''"
  by (simp_all add: str_int_def str_nat.simps)

lemma cut_value_outside: "a < 10 \<or> 100 \<le> a \<Longrightarrow> cut_value bins labels a = None"
  by (auto simp: cut_value_def searchsorted_right_def bins_eq)

lemma cut_value_decade:
  assumes "10 \<le> a" "a < 100"
  shows "cut_value bins labels a =
           Some (str_int (a div 10 * 10) @ ''-'' @ str_int (a div 10 * 10 + 9))"
proof -
  have "1 \<le> a div 10" "a div 10 \<le> 9" using assms by simp_all
  then have "a div 10 \<in> {1, 2, 3, 4, 5, 6, 7, 8, 9}" by auto
  moreover have "a div 10 * 10 \<le> a" "a < a div 10 * 10 + 10" by simp_all
  ultimately show ?thesis
    by (elim insertE emptyE)
       (simp_all add: cut_value_def searchsorted_right_def bins_eq labels_eq str_int_decades)
qed

section \<open>Facts about the loader\<close>

lemma rsub_text: "Text s \<in> set col \<Longrightarrow> rsub a col = Inl TypeError"
  by (induction a col rule: rsub.induct) auto

lemma rsub_numbers:
  "\<not> (\<exists>s. Text s \<in> set col) \<Longrightarrow> \<exists>es. rsub a col = Inr es \<and> length es = length col"
  by (induction a col rule: rsub.induct) auto

lemma rsub_Inr: "rsub a col = Inr es \<Longrightarrow> col = map (\<lambda>e. Number (a - e)) es"
proof (induction a col arbitrary: es rule: rsub.induct)
  case (1 a)
  then show ?case by simp
next
  case (2 a v cs)
  then show ?case by (cases "rsub a cs") auto
next
  case (3 a s cs)
  then show ?case by simp
qed

lemma cargar_datos_cases:
  "cargar_datos R y fs g p =
     (case fs p of
        None \<Rightarrow> Inl FileNotFoundError
      | Some Unreadable \<Rightarrow> Inl OSError
      | Some Undecodable \<Rightarrow> Inl UnicodeDecodeError
      | Some Malformed \<Rightarrow> Inl ParserError
      | Some (Table t) \<Rightarrow>
          if header t = [] then Inl EmptyDataError
          else if ''Year_Birth'' \<notin> set (header t) then Inl KeyError
          else
            (case rsub y (map Year_Birth (body t)) of
               Inl e \<Rightarrow> Inl e
             | Inr edad \<Rightarrow>
                 if \<not> set cols \<subseteq> set (header t) then Inl KeyError
                 else Inr (\<lparr>columns = map rename_column (header t)
                                 @ [''Edad'', ''GastoTotal'', ''Genero'', ''RangoEdad''],
                     rows = map (\<lambda>(r, e, c). enrich r e c)
                       (zip (body t) (zip edad
                       (if ''Gender'' \<in> set (header t)
                        then series_map gender_dict (map Gender (body t))
                        else map (\<lambda>i. Some (if rng_draw R (rng_seed R 42) (length (body t)) i
                                              then ''Mujer'' else ''Hombre''))
                               [0..<length (body t)])))\<rparr>,
                    if ''Gender'' \<in> set (header t) then g
                    else rng_after R (rng_seed R 42) (length (body t)))))"
proof (cases "fs p")
  case None
  then show ?thesis by (simp add: cargar_datos_def read_csv_def)
next
  case (Some f)
  show ?thesis
  proof (cases f)
    case (Table t)
    show ?thesis
    proof (cases "''Gender'' \<in> set (header t)")
      case True
      with Some Table show ?thesis
        by (simp add: cargar_datos_def read_csv_def split: sum.splits)
    next
      case False
      with Some Table show ?thesis
        by (simp add: cargar_datos_def read_csv_def random_choice_def comp_def
              split: sum.splits cong: if_cong)
    qed
  qed (use Some in \<open>simp_all add: cargar_datos_def read_csv_def\<close>)
qed

lemma cargar_datos_row:
  assumes "cargar_datos R y fs g p = Inr (d, g')" "r \<in> set (rows d)"
  obtains raw e c where "r = enrich raw e c"
proof -
  from assms(1) obtain rs es cs where "rows d = map (\<lambda>(r, e, c). enrich r e c) (zip rs (zip es cs))"
    unfolding cargar_datos_cases by (auto split: option.splits csv_file.splits if_splits sum.splits)
  with assms(2) obtain raw e c where "r = enrich raw e c"
    by auto
  then show thesis by (rule that)
qed

lemma enrich_columns:
  assumes "length es = length rs" "length cs = length rs"
  shows "map Genero (map (\<lambda>(r, e, c). enrich r e c) (zip rs (zip es cs))) = cs"
    and "map source (map (\<lambda>(r, e, c). enrich r e c) (zip rs (zip es cs))) = rs"
  using assms(1) assms(2) [symmetric]
  by (induction es rs cs rule: list_induct3) (simp_all add: enrich_def)

lemma genero_col_length:
  "length (if G then series_map gender_dict (map Gender b) else map f [0..<length b]) = length b"
  by (simp add: series_map_def)

lemma series_map_gender:
  "series_map gender_dict col =
     map (\<lambda>c. if c = Some ''M'' then Some ''Hombre''
               else if c = Some ''F'' then Some ''Mujer'' else None) col"
  by (auto simp: series_map_def gender_dict_def split: Option.bind_splits)

lemma cargar_datos_columns:
  "map_sum id (\<lambda>(d, g'). (map source (rows d), map Genero (rows d))) (cargar_datos R y fs g p) =
     (case fs p of
        None \<Rightarrow> Inl FileNotFoundError
      | Some Unreadable \<Rightarrow> Inl OSError
      | Some Undecodable \<Rightarrow> Inl UnicodeDecodeError
      | Some Malformed \<Rightarrow> Inl ParserError
      | Some (Table t) \<Rightarrow>
          if header t = [] then Inl EmptyDataError
          else if ''Year_Birth'' \<notin> set (header t) then Inl KeyError
          else if \<exists>s. Text s \<in> set (map Year_Birth (body t)) then Inl TypeError
          else if \<not> set cols \<subseteq> set (header t) then Inl KeyError
          else Inr (body t,
                    if ''Gender'' \<in> set (header t)
                    then series_map gender_dict (map Gender (body t))
                    else map (\<lambda>i. Some (if rng_draw R (rng_seed R 42) (length (body t)) i
                                          then ''Mujer'' else ''Hombre''))
                           [0..<length (body t)]))"
proof (cases "fs p")
  case None
  then show ?thesis by (simp add: cargar_datos_cases)
next
  case (Some f)
  show ?thesis
  proof (cases f)
    case (Table t)
    show ?thesis
    proof (cases "\<exists>s. Text s \<in> set (map Year_Birth (body t))")
      case True
      then obtain s where "Text s \<in> set (map Year_Birth (body t))" ..
      then have "rsub y (map Year_Birth (body t)) = Inl TypeError"
        by (rule rsub_text)
      with Some Table True show ?thesis
        by (simp add: cargar_datos_cases)
    next
      case False
      then obtain es where es: "rsub y (map Year_Birth (body t)) = Inr es"
        "length es = length (body t)"
        using rsub_numbers [of "map Year_Birth (body t)" y] by auto
      with Some Table False show ?thesis
        by (simp add: cargar_datos_cases enrich_columns genero_col_length del: map_map)
    qed
  qed (use Some in \<open>simp_all add: cargar_datos_cases\<close>)
qed

section \<open>Facts about the filter\<close>

lemma df_filtrado_filter:
  "df_filtrado df fe fa fg =
     filter (\<lambda>r. EstadoCivil r \<in> Some ` set fe \<and> RangoEdad r \<in> Some ` set fa
                 \<and> Genero r \<in> Some ` set fg) df"
  by (simp add: df_filtrado_def isin_map mask_and_map boolean_index_map)

section \<open>Facts about the brackets of loaded rows\<close>

lemma cut_value_in_labels:
  assumes "cut_value bs ls a = Some l" "length bs = Suc (length ls)"
  shows "l \<in> set ls"
proof -
  define ids where "ids = searchsorted_right bs a"
  have "ids \<le> length bs"
    by (simp add: ids_def searchsorted_right_def length_takeWhile_le)
  moreover from assms(1) have "ids \<noteq> 0" "ids \<noteq> length bs" "l = ls ! (ids - 1)"
    by (auto simp: cut_value_def ids_def Let_def split: if_splits)
  ultimately have "ids - 1 < length ls" using assms(2) by simp
  with \<open>l = ls ! (ids - 1)\<close> show ?thesis by simp
qed

lemma rango_in_labels:
  assumes "cargar_datos R y fs g p = Inr (d, g')" "r \<in> set (rows d)" "RangoEdad r = Some l"
  shows "l \<in> set labels"
proof -
  from assms(1,2) obtain raw e c where "r = enrich raw e c"
    by (rule cargar_datos_row)
  with assms(3) have "cut_value bins labels (Edad r) = Some l"
    by (simp add: enrich_def)
  then show ?thesis
    by (rule cut_value_in_labels) (simp add: bins_eq labels_eq)
qed

lemma labels_sorted_distinct: "sorted labels" "distinct labels"
  by (simp_all add: labels_eq)

lemma mean_NaN: "mean xs = NaN \<longleftrightarrow> xs = []"
  by (simp add: mean_def)

section \<open>Facts about the insights\<close>

lemma idxmax_ok: "Float v \<in> set ys \<Longrightarrow> \<exists>i. idxmax ys = Inr i"
  by (force simp: idxmax_def Let_def)

lemma if_Float: "\<exists>v. (if c then Float a else Float b) = Float v"
  by (cases c) simp_all

lemma median_value:
  assumes "xs \<noteq> []"
  shows "\<exists>v. median xs = Float v"
proof -
  from assms have "sort xs \<noteq> []"
    by (metis set_empty set_sort)
  then have "median xs =
      (if odd (length (sort xs)) then Float (real_of_int (sort xs ! (length (sort xs) div 2)))
       else Float ((real_of_int (sort xs ! (length (sort xs) div 2 - 1))
                     + real_of_int (sort xs ! (length (sort xs) div 2))) / 2))"
    by (simp add: median_def Let_def)
  then show ?thesis
    by (simp only: if_Float)
qed

lemma py_int_value: "\<exists>p. py_int (Float v) = Inr p"
  by (simp add: py_int_def)

lemma mean_value: "xs \<noteq> [] \<Longrightarrow> \<exists>v. mean xs = Float v"
  by (simp add: mean_def)

lemma gasto_por_rango_value:
  assumes "r \<in> set sub" "RangoEdad r = Some l" "l \<in> set labels"
  shows "\<exists>v. Float v \<in> set (map snd (gasto_por_rango observed sub))"
proof -
  let ?grp = "filter (\<lambda>r. RangoEdad r = Some l) sub"
  from assms(1,2) have "?grp \<noteq> []"
    by (auto simp: filter_empty_conv)
  then obtain v where v: "mean (map GastoTotal ?grp) = Float v"
    using mean_value [of "map GastoTotal ?grp"] by auto
  from assms have "Some l \<in> set (map RangoEdad sub)"
    by force
  with assms(3) have "(l, mean (map GastoTotal ?grp)) \<in> set (gasto_por_rango observed sub)"
    by (auto simp: gasto_por_rango_def)
  with v have "Float v \<in> set (map snd (gasto_por_rango observed sub))"
    by force
  then show ?thesis ..
qed

lemma insights_of_estado:
  assumes "idxmax (map snd t) = Inr i" "sub \<noteq> []" "item0 (mode (map EstadoCivil sub)) = Inr e"
  shows "\<exists>p. insights_of sub t = Inr \<lparr>pub_objetivo = p, gasto_top = t ! i, estado_comun = e\<rparr>"
proof -
  from assms(2) obtain v where "median (map Edad sub) = Float v"
    using median_value [of "map Edad sub"] by auto
  moreover obtain p where "py_int (Float v) = Inr p"
    using py_int_value by blast
  ultimately show ?thesis
    using assms(1,3) by (simp add: insights_of_def)
qed

section \<open>The sample files, loaded\<close>

lemmas sample_defs =
  file_of_def full_header_def cols_def demo_rng_def rename_column_def enrich_def cliente_def
  series_map_def gender_dict_def gasto_total_def fillna_def upt_conv_Cons bins_eq labels_eq
  cut_value_def searchsorted_right_def

lemma cargar_muestra:
  "cargar_datos demo_rng 2024 (file_of muestra) 0 ''marketing_campaign.csv'' =
     Inr (\<lparr>columns = [''Year_Birth'', ''EstadoCivil'', ''MntWines'', ''MntFruits'',
                       ''MntMeatProducts'', ''MntFishProducts'', ''MntSweetProducts'',
                       ''MntGoldProds'', ''Edad'', ''GastoTotal'', ''Genero'', ''RangoEdad''],
           rows = [\<lparr>source = cliente 1990 (Some ''Single'') None (Some 100) None,
                     Edad = 34, GastoTotal = 100, EstadoCivil = Some ''Single'',
                     Genero = Some ''Hombre'', RangoEdad = Some ''30-39''\<rparr>,
                   \<lparr>source = cliente 1985 (Some ''Married'') None None (Some 200),
                     Edad = 39, GastoTotal = 200, EstadoCivil = Some ''Married'',
                     Genero = Some ''Mujer'', RangoEdad = Some ''30-39''\<rparr>,
                   \<lparr>source = cliente 1893 (Some ''Single'') None None None,
                     Edad = 131, GastoTotal = 0, EstadoCivil = Some ''Single'',
                     Genero = Some ''Hombre'', RangoEdad = None\<rparr>]\<rparr>, 45)"
  by (simp add: cargar_datos_cases muestra_def sample_defs)

lemma cargar_muestra_gender:
  "cargar_datos demo_rng 2024 (file_of muestra_gender) 0 ''marketing_campaign.csv'' =
     Inr (\<lparr>columns = [''Gender'', ''Year_Birth'', ''EstadoCivil'', ''MntWines'', ''MntFruits'',
                       ''MntMeatProducts'', ''MntFishProducts'', ''MntSweetProducts'',
                       ''MntGoldProds'', ''Edad'', ''GastoTotal'', ''Genero'', ''RangoEdad''],
           rows = [\<lparr>source = cliente 1990 (Some ''Single'') (Some ''F'') None None,
                     Edad = 34, GastoTotal = 0, EstadoCivil = Some ''Single'',
                     Genero = Some ''Mujer'', RangoEdad = Some ''30-39''\<rparr>,
                   \<lparr>source = cliente 1985 (Some ''Married'') None None None,
                     Edad = 39, GastoTotal = 0, EstadoCivil = Some ''Married'',
                     Genero = None, RangoEdad = Some ''30-39''\<rparr>]\<rparr>, 0)"
  by (simp add: cargar_datos_cases muestra_gender_def sample_defs)

lemma muestra_filtrada:
  "df_filtrado
     [\<lparr>source = cliente 1990 (Some ''Single'') None (Some 100) None,
        Edad = 34, GastoTotal = 100, EstadoCivil = Some ''Single'',
        Genero = Some ''Hombre'', RangoEdad = Some ''30-39''\<rparr>,
      \<lparr>source = cliente 1985 (Some ''Married'') None None (Some 200),
        Edad = 39, GastoTotal = 200, EstadoCivil = Some ''Married'',
        Genero = Some ''Mujer'', RangoEdad = Some ''30-39''\<rparr>,
      \<lparr>source = cliente 1893 (Some ''Single'') None None None,
        Edad = 131, GastoTotal = 0, EstadoCivil = Some ''Single'',
        Genero = Some ''Hombre'', RangoEdad = None\<rparr>]
     [''Single'', ''Married''] [''30-39''] [''Hombre'', ''Mujer''] =
     [\<lparr>source = cliente 1990 (Some ''Single'') None (Some 100) None,
        Edad = 34, GastoTotal = 100, EstadoCivil = Some ''Single'',
        Genero = Some ''Hombre'', RangoEdad = Some ''30-39''\<rparr>,
      \<lparr>source = cliente 1985 (Some ''Married'') None None (Some 200),
        Edad = 39, GastoTotal = 200, EstadoCivil = Some ''Married'',
        Genero = Some ''Mujer'', RangoEdad = Some ''30-39''\<rparr>]"
  by (simp add: df_filtrado_filter)

text \<open>The script on the sample file, with two selections of the widgets.\<close>

lemmas main_eval =
  main_def metricas_def py_div_def genero_dominante_def mean_def gasto_por_rango_def
  insights_of_def idxmax_def median_def py_int_def labels_eq
  mode_def item0_def unique_def dropna_def

lemma main_muestra:
  "main demo_rng False 2024 (file_of muestra) 0
     [''Single'', ''Married''] [''30-39''] [''Hombre'', ''Mujer''] =
   Inr (Rendered
     \<lparr>clientes = 2, del_total = 200 / 3, gasto_prom = Float 150, edad_prom = Float (73 / 2),
      genero = Dominant ''Hombre'' 1\<rparr>
     [(''10-19'', NaN), (''20-29'', NaN), (''30-39'', Float 150), (''40-49'', NaN),
      (''50-59'', NaN), (''60-69'', NaN), (''70-79'', NaN), (''80-89'', NaN), (''90-99'', NaN)]
     \<lparr>pub_objetivo = 36, gasto_top = (''30-39'', Float 150), estado_comun = ''Married''\<rparr>)"
  by (simp add: main_eval cargar_muestra df_filtrado_filter)

text \<open>
  On a file with the header line only, the full frame is empty and the first metric
  divides by its length.
\<close>

lemma main_solo_cabecera:
  "main demo_rng observed 2024 (file_of solo_cabecera) 0 fe fa fg = Inl ZeroDivisionError"
  by (simp add: main_def metricas_def py_div_def df_filtrado_filter cargar_datos_cases
        solo_cabecera_def sample_defs)

section \<open>The filter\<close>

text \<open>
  C5. A row is in the filtered frame exactly when its marital status, its age bracket and
  its gender are each among the selected labels of the corresponding widget, and the
  filtered frame keeps these rows in the order of the full frame (it is the full frame
  filtered row by row). A row with a missing cell in one of the three columns is never
  in it. When one of the three selections is empty, the filtered frame is empty.
\<close>

theorem filter_membership:
  "df_filtrado df fe fa fg =
     filter (\<lambda>r. EstadoCivil r \<in> Some ` set fe \<and> RangoEdad r \<in> Some ` set fa
                 \<and> Genero r \<in> Some ` set fg) df
   \<and> (fe = [] \<or> fa = [] \<or> fg = [] \<longrightarrow> df_filtrado df fe fa fg = [])"
proof -
  let ?keep = "\<lambda>r. EstadoCivil r \<in> Some ` set fe \<and> RangoEdad r \<in> Some ` set fa
                    \<and> Genero r \<in> Some ` set fg"
  have masks: "mask_and (mask_and (isin (map EstadoCivil df) fe) (isin (map RangoEdad df) fa))
                 (isin (map Genero df) fg) = map ?keep df"
    by (simp add: isin_map mask_and_map)
  have rowwise: "df_filtrado df fe fa fg = filter ?keep df"
    unfolding df_filtrado_def masks by (rule boolean_index_map)
  have "filter ?keep df = []" if "fe = [] \<or> fa = [] \<or> fg = []"
    using that by auto
  with rowwise show ?thesis by simp
qed

theorem filter_membership_witness:
  "map_sum id (\<lambda>(d, g'). map Edad (df_filtrado (rows d) [''Single''] [''30-39''] [''Hombre'', ''Mujer'']))
     (cargar_datos demo_rng 2024 (file_of muestra) 0 ''marketing_campaign.csv'') = Inr [34]
   \<and> map_sum id (\<lambda>(d, g'). df_filtrado (rows d) [''Single'', ''Married''] [] [''Hombre'', ''Mujer''])
     (cargar_datos demo_rng 2024 (file_of muestra) 0 ''marketing_campaign.csv'') = Inr []"
  using filter_membership [of _ "[''Single'']" "[''30-39'']" "[''Hombre'', ''Mujer'']"]
    filter_membership [of _ "[''Single'', ''Married'']" "[]" "[''Hombre'', ''Mujer'']"]
  by (simp add: cargar_muestra)

text \<open>
  C9. Filtering is idempotent: filtering the filtered frame again with the same three
  selections returns it unchanged.
\<close>

theorem filter_idempotent:
  "df_filtrado (df_filtrado df fe fa fg) fe fa fg = df_filtrado df fe fa fg"
proof -
  let ?keep = "\<lambda>r. EstadoCivil r \<in> Some ` set fe \<and> RangoEdad r \<in> Some ` set fa
                    \<and> Genero r \<in> Some ` set fg"
  have "df_filtrado (df_filtrado df fe fa fg) fe fa fg = filter ?keep (filter ?keep df)"
    by (simp only: df_filtrado_filter)
  also have "\<dots> = filter ?keep df"
    by simp
  also have "\<dots> = df_filtrado df fe fa fg"
    by (simp only: df_filtrado_filter)
  finally show ?thesis .
qed

theorem filter_idempotent_witness:
  "map_sum id
     (\<lambda>(d, g'). map Edad (df_filtrado (df_filtrado (rows d) [''Single''] [''30-39''] [''Hombre''])
                              [''Single''] [''30-39''] [''Hombre'']))
     (cargar_datos demo_rng 2024 (file_of muestra) 0 ''marketing_campaign.csv'') = Inr [34]"
  using filter_idempotent [of _ "[''Single'']" "[''30-39'']" "[''Hombre'']"]
  by (simp add: cargar_muestra df_filtrado_filter)

text \<open>
  C1, as the script has it. With the widgets' default selection (every option, that is
  every non-missing value of the column), the filtered frame consists of the rows without
  a missing marital status, age bracket or gender, in their order. It is the full frame
  exactly when no row has such a missing cell. The options come from
  \<^verbatim>\<open>dropna().unique()\<close>, so a row whose age lies outside 10..99 (no bracket) is dropped
  even by the default selection.
\<close>

theorem filter_all_options:
  "df_filtrado df (estados_civiles df) (rangos_edades df) (generos df) =
     filter (\<lambda>r. EstadoCivil r \<noteq> None \<and> RangoEdad r \<noteq> None \<and> Genero r \<noteq> None) df
   \<and> (df_filtrado df (estados_civiles df) (rangos_edades df) (generos df) = df \<longleftrightarrow>
        list_all (\<lambda>r. EstadoCivil r \<noteq> None \<and> RangoEdad r \<noteq> None \<and> Genero r \<noteq> None) df)"
proof -
  have eq: "df_filtrado df (estados_civiles df) (rangos_edades df) (generos df) =
     filter (\<lambda>r. EstadoCivil r \<noteq> None \<and> RangoEdad r \<noteq> None \<and> Genero r \<noteq> None) df"
    unfolding df_filtrado_filter estados_civiles_def rangos_edades_def generos_def
    by (rule filter_cong) (auto simp: in_options)
  show ?thesis
    unfolding eq by (simp add: filter_id_conv list_all_iff)
qed

theorem filter_all_options_witness:
  "df_filtrado [enrich (cliente 1990 (Some ''Single'') None None None) 34 (Some ''Hombre'')]
     (estados_civiles [enrich (cliente 1990 (Some ''Single'') None None None) 34 (Some ''Hombre'')])
     (rangos_edades [enrich (cliente 1990 (Some ''Single'') None None None) 34 (Some ''Hombre'')])
     (generos [enrich (cliente 1990 (Some ''Single'') None None None) 34 (Some ''Hombre'')])
   = [enrich (cliente 1990 (Some ''Single'') None None None) 34 (Some ''Hombre'')]"
  using filter_all_options
    [of "[enrich (cliente 1990 (Some ''Single'') None None None) 34 (Some ''Hombre'')]"]
  by (simp add: sample_defs)

text \<open>
  The claim C1 as stated fails on the sample file: the customer born in 1893 has no age
  bracket and is missing from the frame filtered with all options.
\<close>

theorem filter_all_options_counterexample:
  "map_sum id
     (\<lambda>(d, g'). (map Edad (rows d),
                  map Edad (df_filtrado (rows d) (estados_civiles (rows d))
                              (rangos_edades (rows d)) (generos (rows d)))))
     (cargar_datos demo_rng 2024 (file_of muestra) 0 ''marketing_campaign.csv'')
   = Inr ([34, 39, 131], [34, 39])"
  by (simp add: cargar_muestra df_filtrado_filter estados_civiles_def rangos_edades_def generos_def
       unique_def dropna_def List.map_filter_simps)

section \<open>The derived columns\<close>

text \<open>
  C4. For every row of a loaded frame, the age bracket is present exactly when the age
  is at least 10 and below 100, and it is then the label of the decade of the age:
  from \<open>Edad div 10 * 10\<close> to that plus 9.
\<close>

theorem age_bracket:
  assumes "cargar_datos R y fs g p = Inr (d, g')" "r \<in> set (rows d)"
  shows "(RangoEdad r \<noteq> None \<longleftrightarrow> 10 \<le> Edad r \<and> Edad r < 100)
       \<and> (10 \<le> Edad r \<and> Edad r < 100 \<longrightarrow>
            RangoEdad r =
              Some (str_int (Edad r div 10 * 10) @ ''-'' @ str_int (Edad r div 10 * 10 + 9)))"
proof -
  from assms obtain raw e c where r: "r = enrich raw e c"
    by (rule cargar_datos_row)
  then have "RangoEdad r = cut_value bins labels (Edad r)"
    by (simp add: enrich_def)
  then show ?thesis
    using cut_value_outside [of "Edad r"] cut_value_decade [of "Edad r"]
    by (cases "10 \<le> Edad r \<and> Edad r < 100") auto
qed

theorem age_bracket_witness:
  "\<exists>d g'. cargar_datos demo_rng 2024 (file_of muestra) 0 ''marketing_campaign.csv'' = Inr (d, g')
      \<and> map (\<lambda>r. (Edad r, RangoEdad r)) (rows d)
          = [(34, Some (str_int 30 @ ''-'' @ str_int 39)), (39, Some ''30-39''), (131, None)]"
  using age_bracket [OF cargar_muestra, of
      "\<lparr>source = cliente 1990 (Some ''Single'') None (Some 100) None,
        Edad = 34, GastoTotal = 100, EstadoCivil = Some ''Single'',
        Genero = Some ''Hombre'', RangoEdad = Some ''30-39''\<rparr>"]
  by (simp add: cargar_muestra)

text \<open>
  C3, as the script has it. The script decides by the presence of the \<^verbatim>\<open>Gender\<close> column,
  not of the single value. Without the column, every row gets \<^verbatim>\<open>Hombre\<close> or \<^verbatim>\<open>Mujer\<close>,
  drawn by \<^verbatim>\<open>np.random.choice\<close> after \<^verbatim>\<open>np.random.seed(42)\<close>. With the column, \<^verbatim>\<open>M\<close>
  becomes \<^verbatim>\<open>Hombre\<close>, \<^verbatim>\<open>F\<close> becomes \<^verbatim>\<open>Mujer\<close>, and any other or missing value leaves the
  gender missing.
\<close>

theorem genero_derivation:
  assumes "cargar_datos R y fs g p = Inr (d, g')" "fs p = Some (Table t)"
  shows "map Genero (rows d) =
           (if ''Gender'' \<in> set (header t)
            then map (\<lambda>r. if Gender r = Some ''M'' then Some ''Hombre''
                          else if Gender r = Some ''F'' then Some ''Mujer'' else None) (body t)
            else map (\<lambda>i. Some (if rng_draw R (rng_seed R 42) (length (body t)) i
                                  then ''Mujer'' else ''Hombre''))
                   [0..<length (body t)])
       \<and> (''Gender'' \<notin> set (header t) \<longrightarrow>
            list_all (\<lambda>r. Genero r = Some ''Hombre'' \<or> Genero r = Some ''Mujer'') (rows d))"
proof -
  let ?cs = "if ''Gender'' \<in> set (header t)
             then series_map gender_dict (map Gender (body t))
             else map (\<lambda>i. Some (if rng_draw R (rng_seed R 42) (length (body t)) i
                                   then ''Mujer'' else ''Hombre''))
                    [0..<length (body t)]"
  have col: "map Genero (rows d) = ?cs"
    using cargar_datos_columns [of R y fs g p] assms
    by (simp split: if_splits)
  have first: "map Genero (rows d) = (if ''Gender'' \<in> set (header t)
            then map (\<lambda>r. if Gender r = Some ''M'' then Some ''Hombre''
                          else if Gender r = Some ''F'' then Some ''Mujer'' else None) (body t)
            else map (\<lambda>i. Some (if rng_draw R (rng_seed R 42) (length (body t)) i
                                  then ''Mujer'' else ''Hombre''))
                   [0..<length (body t)])"
    unfolding col by (simp add: series_map_gender comp_def)
  have second: "list_all (\<lambda>r. Genero r = Some ''Hombre'' \<or> Genero r = Some ''Mujer'') (rows d)"
    if "''Gender'' \<notin> set (header t)"
  proof -
    have "\<forall>c \<in> set (map Genero (rows d)). c = Some ''Hombre'' \<or> c = Some ''Mujer''"
      unfolding col using that by auto
    then show ?thesis by (simp add: list_all_iff)
  qed
  from first second show ?thesis by blast
qed

theorem genero_derivation_witness:
  "(\<exists>d g'. cargar_datos demo_rng 2024 (file_of muestra) 0 ''marketing_campaign.csv'' = Inr (d, g')
       \<and> map Genero (rows d) = [Some ''Hombre'', Some ''Mujer'', Some ''Hombre''])
   \<and> (\<exists>d g'. cargar_datos demo_rng 2024 (file_of muestra_gender) 0 ''marketing_campaign.csv''
                = Inr (d, g')
       \<and> map Genero (rows d) = [Some ''Mujer'', None])"
  using genero_derivation [OF cargar_muestra, of muestra]
    genero_derivation [OF cargar_muestra_gender, of muestra_gender]
  by (simp add: cargar_muestra cargar_muestra_gender)

text \<open>
  The claim C3 as stated fails on a file that has the \<^verbatim>\<open>Gender\<close> column and an empty
  cell in it: the gender of that row is missing after derivation.
\<close>

theorem genero_missing_counterexample:
  "map_sum id (\<lambda>(d, g'). map Genero (rows d))
     (cargar_datos demo_rng 2024 (file_of muestra_gender) 0 ''marketing_campaign.csv'')
   = Inr [Some ''Mujer'', None]"
  by (simp add: cargar_muestra_gender)

text \<open>
  C8. The gender column does not depend on the run: two runs of the loader on the same
  file give the same gender column (or the same error), whatever the state of numpy's
  global generator before each run and whatever the clock's year. The generator is
  reseeded with 42 before the draw.
\<close>

theorem genero_deterministic:
  "map_sum id (\<lambda>(d, g'). map Genero (rows d)) (cargar_datos R y1 fs g1 p) =
   map_sum id (\<lambda>(d, g'). map Genero (rows d)) (cargar_datos R y2 fs g2 p)"
proof -
  have "map_sum id (\<lambda>(d, g'). map Genero (rows d)) (cargar_datos R y fs g p) =
        map_sum id snd
          (map_sum id (\<lambda>(d, g'). (map source (rows d), map Genero (rows d)))
            (cargar_datos R y fs g p))" for y g
    by (cases "cargar_datos R y fs g p") auto
  then show ?thesis
    unfolding cargar_datos_columns by simp
qed

theorem genero_deterministic_witness:
  "map_sum id (\<lambda>(d, g'). map Genero (rows d))
     (cargar_datos demo_rng 2025 (file_of muestra) 7 ''marketing_campaign.csv'')
   = Inr [Some ''Hombre'', Some ''Mujer'', Some ''Hombre'']"
  using genero_deterministic
    [of demo_rng 2025 "file_of muestra" 7 "''marketing_campaign.csv''" 2024 0]
  by (simp add: cargar_muestra)

section \<open>Loading\<close>




section \<open>The aggregates\<close>

text \<open>
  C10. On a non-empty filtered frame, the dominant gender of the fourth metric and the
  most common marital status of the insights are a most frequent label of their column,
  and among the labels of that highest frequency the smallest in the order of strings:
  \<^verbatim>\<open>mode()\<close> returns the most frequent values sorted ascending and the script takes
  element 0. The metric's count is the number of rows with the dominant gender. When
  \<^verbatim>\<open>Hombre\<close> and \<^verbatim>\<open>Mujer\<close> are the only genders and equally frequent, the dominant
  gender is \<^verbatim>\<open>Hombre\<close>. These two labels are what the script shows: the insights
  computed from the frame carry this marital status, and a run of the script on a loaded
  frame renders the page with this gender in the metrics and this marital status in the
  insights.
\<close>

theorem dominant_tie_break:
  assumes "sub = df_filtrado df fe fa fg" "sub \<noteq> []"
  shows "\<exists>m e.
        genero_dominante sub = Inr (Dominant m (count_list (map Genero sub) (Some m)))
      \<and> Some m \<in> set (map Genero sub)
      \<and> (\<forall>v. count_list (map Genero sub) (Some v) \<le> count_list (map Genero sub) (Some m))
      \<and> (\<forall>v. count_list (map Genero sub) (Some v) = count_list (map Genero sub) (Some m)
             \<longrightarrow> m \<le> v)
      \<and> (set (map Genero sub) \<subseteq> {Some ''Hombre'', Some ''Mujer''}
            \<and> count_list (map Genero sub) (Some ''Hombre'')
                = count_list (map Genero sub) (Some ''Mujer'')
          \<longrightarrow> m = ''Hombre'')
      \<and> item0 (mode (map EstadoCivil sub)) = Inr e
      \<and> Some e \<in> set (map EstadoCivil sub)
      \<and> (\<forall>v. count_list (map EstadoCivil sub) (Some v)
               \<le> count_list (map EstadoCivil sub) (Some e))
      \<and> (\<forall>v. count_list (map EstadoCivil sub) (Some v)
                 = count_list (map EstadoCivil sub) (Some e) \<longrightarrow> e \<le> v)
      \<and> (\<forall>t i. idxmax (map snd t) = Inr i \<longrightarrow>
            (\<exists>p. insights_of sub t
                   = Inr \<lparr>pub_objetivo = p, gasto_top = t ! i, estado_comun = e\<rparr>))
      \<and> (\<forall>(R :: 'g np_random) observed y fs g d g'.
            cargar_datos R y fs g ''marketing_campaign.csv'' = Inr (d, g')
              \<and> ''EstadoCivil'' \<in> set (columns d) \<and> rows d = df \<longrightarrow>
            (\<exists>mt ins. main R observed y fs g fe fa fg
                          = Inr (Rendered mt (gasto_por_rango observed sub) ins)
                \<and> genero mt = Dominant m (count_list (map Genero sub) (Some m))
                \<and> estado_comun ins = e))"
proof -
  from assms(2) obtain r where r: "r \<in> set sub" by (cases sub) auto
  with assms(1) obtain vg ve vr where cells: "Genero r = Some vg" "EstadoCivil r = Some ve"
    "RangoEdad r = Some vr" and rdf: "r \<in> set df"
    by (auto simp: df_filtrado_filter)
  with r have vg: "Some vg \<in> set (map Genero sub)" and ve: "Some ve \<in> set (map EstadoCivil sub)"
    by force+
  from vg obtain m where m: "item0 (mode (map Genero sub)) = Inr m"
    "Some m \<in> set (map Genero sub)"
    "\<forall>k. count_list (map Genero sub) (Some k) \<le> count_list (map Genero sub) (Some m)"
    "\<forall>k. count_list (map Genero sub) (Some k) = count_list (map Genero sub) (Some m) \<longrightarrow> m \<le> k"
    by (rule mode_first)
  from ve obtain e where e: "item0 (mode (map EstadoCivil sub)) = Inr e"
    "Some e \<in> set (map EstadoCivil sub)"
    "\<forall>k. count_list (map EstadoCivil sub) (Some k) \<le> count_list (map EstadoCivil sub) (Some e)"
    "\<forall>k. count_list (map EstadoCivil sub) (Some k) = count_list (map EstadoCivil sub) (Some e)
         \<longrightarrow> e \<le> k"
    by (rule mode_first)
  have dom: "genero_dominante sub = Inr (Dominant m (count_list (map Genero sub) (Some m)))"
    using assms(2) m(1) by (simp add: genero_dominante_def)
  have tie: "m = ''Hombre''"
    if sub2: "set (map Genero sub) \<subseteq> {Some ''Hombre'', Some ''Mujer''}"
      and eq: "count_list (map Genero sub) (Some ''Hombre'')
                = count_list (map Genero sub) (Some ''Mujer'')"
  proof (rule ccontr)
    assume "m \<noteq> ''Hombre''"
    with m(2) sub2 have "m = ''Mujer''" by auto
    with eq m(4) [rule_format, of "''Hombre''"] have "''Mujer'' \<le> ''Hombre''" by simp
    then show False by simp
  qed
  have ins: "\<exists>p. insights_of sub t = Inr \<lparr>pub_objetivo = p, gasto_top = t ! i, estado_comun = e\<rparr>"
    if "idxmax (map snd t) = Inr i" for t i
    using that assms(2) e(1) by (rule insights_of_estado)
  have script: "\<exists>mt ins. main R observed y fs g fe fa fg
                          = Inr (Rendered mt (gasto_por_rango observed sub) ins)
                \<and> genero mt = Dominant m (count_list (map Genero sub) (Some m))
                \<and> estado_comun ins = e"
    if load: "cargar_datos R y fs g ''marketing_campaign.csv'' = Inr (d, g')"
      and col: "''EstadoCivil'' \<in> set (columns d)" and df: "rows d = df"
    for R :: "'g np_random" and observed y fs g d g'
  proof -
    from load rdf df cells(3) have "vr \<in> set labels"
      by (auto intro: rango_in_labels)
    with r cells(3) obtain v where "Float v \<in> set (map snd (gasto_por_rango observed sub))"
      using gasto_por_rango_value by blast
    then obtain i where "idxmax (map snd (gasto_por_rango observed sub)) = Inr i"
      using idxmax_ok by blast
    then obtain p where p: "insights_of sub (gasto_por_rango observed sub)
        = Inr \<lparr>pub_objetivo = p, gasto_top = gasto_por_rango observed sub ! i, estado_comun = e\<rparr>"
      using ins by blast
    from rdf have "length df \<noteq> 0" by auto
    with dom have "metricas df sub =
        Inr \<lparr>clientes = length sub, del_total = real (length sub) / real (length df) * 100,
             gasto_prom = mean (map GastoTotal sub), edad_prom = mean (map Edad sub),
             genero = Dominant m (count_list (map Genero sub) (Some m))\<rparr>"
      by (simp add: metricas_def py_div_def)
    with load col df p assms show ?thesis
      by (simp add: main_def Let_def)
  qed
  show ?thesis
  proof (rule exI [of _ m], rule exI [of _ e], intro conjI)
    show "genero_dominante sub = Inr (Dominant m (count_list (map Genero sub) (Some m)))"
      by (rule dom)
    show "Some m \<in> set (map Genero sub)"
      by (rule m(2))
    show "\<forall>v. count_list (map Genero sub) (Some v) \<le> count_list (map Genero sub) (Some m)"
      by (rule m(3))
    show "\<forall>v. count_list (map Genero sub) (Some v) = count_list (map Genero sub) (Some m)
             \<longrightarrow> m \<le> v"
      by (rule m(4))
    show "set (map Genero sub) \<subseteq> {Some ''Hombre'', Some ''Mujer''}
            \<and> count_list (map Genero sub) (Some ''Hombre'')
                = count_list (map Genero sub) (Some ''Mujer'')
          \<longrightarrow> m = ''Hombre''"
      using tie by blast
    show "item0 (mode (map EstadoCivil sub)) = Inr e"
      by (rule e(1))
    show "Some e \<in> set (map EstadoCivil sub)"
      by (rule e(2))
    show "\<forall>v. count_list (map EstadoCivil sub) (Some v)
               \<le> count_list (map EstadoCivil sub) (Some e)"
      by (rule e(3))
    show "\<forall>v. count_list (map EstadoCivil sub) (Some v)
                 = count_list (map EstadoCivil sub) (Some e) \<longrightarrow> e \<le> v"
      by (rule e(4))
    show "\<forall>t i. idxmax (map snd t) = Inr i \<longrightarrow>
            (\<exists>p. insights_of sub t
                   = Inr \<lparr>pub_objetivo = p, gasto_top = t ! i, estado_comun = e\<rparr>)"
      using ins by blast
    show "\<forall>(R :: 'g np_random) observed y fs g d g'.
            cargar_datos R y fs g ''marketing_campaign.csv'' = Inr (d, g')
              \<and> ''EstadoCivil'' \<in> set (columns d) \<and> rows d = df \<longrightarrow>
            (\<exists>mt ins. main R observed y fs g fe fa fg
                          = Inr (Rendered mt (gasto_por_rango observed sub) ins)
                \<and> genero mt = Dominant m (count_list (map Genero sub) (Some m))
                \<and> estado_comun ins = e)"
      using script by blast
  qed
qed

theorem dominant_tie_break_witness:
  "\<exists>d g'. cargar_datos demo_rng 2024 (file_of muestra) 0 ''marketing_campaign.csv'' = Inr (d, g')
     \<and> map Genero (df_filtrado (rows d) [''Single'', ''Married''] [''30-39''] [''Hombre'', ''Mujer''])
         = [Some ''Hombre'', Some ''Mujer'']
     \<and> map EstadoCivil
          (df_filtrado (rows d) [''Single'', ''Married''] [''30-39''] [''Hombre'', ''Mujer''])
         = [Some ''Single'', Some ''Married'']
     \<and> genero_dominante
          (df_filtrado (rows d) [''Single'', ''Married''] [''30-39''] [''Hombre'', ''Mujer''])
         = Inr (Dominant ''Hombre'' 1)
     \<and> (\<exists>mt t ins. main demo_rng False 2024 (file_of muestra) 0
                       [''Single'', ''Married''] [''30-39''] [''Hombre'', ''Mujer'']
                     = Inr (Rendered mt t ins)
           \<and> genero mt = Dominant ''Hombre'' 1 \<and> estado_comun ins = ''Married'')"
  using dominant_tie_break [OF muestra_filtrada [symmetric]]
  by (simp add: cargar_muestra muestra_filtrada main_muestra genero_dominante_def mode_def
        item0_def unique_def dropna_def)

text \<open>
  C2, as the script has it. For a subset of the rows of a loaded frame, the table of mean
  spend by age bracket depends on the library's default for \<^verbatim>\<open>observed\<close>, which the
  script leaves unset. With \<^verbatim>\<open>observed=True\<close> its brackets are exactly the brackets
  present in the subset. With \<^verbatim>\<open>observed=False\<close> it has one entry for each of the nine
  bracket categories, present in the subset or not. In both cases no bracket appears
  twice, the entries are in ascending bracket order, and the mean of an entry is
  \<^verbatim>\<open>nan\<close> exactly when its bracket is absent from the subset.
\<close>

theorem gasto_por_rango_brackets:
  assumes "cargar_datos R y fs g p = Inr (d, g')" "set sub \<subseteq> set (rows d)"
  shows "(if observed
          then set (map fst (gasto_por_rango observed sub)) = {l. Some l \<in> set (map RangoEdad sub)}
          else map fst (gasto_por_rango observed sub) = labels)
       \<and> distinct (map fst (gasto_por_rango observed sub))
       \<and> sorted (map fst (gasto_por_rango observed sub))
       \<and> list_all (\<lambda>(l, m). m = NaN \<longleftrightarrow> Some l \<notin> set (map RangoEdad sub))
            (gasto_por_rango observed sub)"
proof -
  let ?ls = "if observed then filter (\<lambda>l. Some l \<in> set (map RangoEdad sub)) labels else labels"
  have keys: "map fst (gasto_por_rango observed sub) = ?ls"
    by (simp add: gasto_por_rango_def comp_def)
  have present: "l \<in> set labels" if "Some l \<in> set (map RangoEdad sub)" for l
  proof -
    from that obtain r where "r \<in> set sub" "RangoEdad r = Some l" by auto
    with assms show ?thesis by (auto intro: rango_in_labels)
  qed
  have first: "if observed
          then set (map fst (gasto_por_rango observed sub)) = {l. Some l \<in> set (map RangoEdad sub)}
          else map fst (gasto_por_rango observed sub) = labels"
    unfolding keys using present by auto
  have second: "distinct (map fst (gasto_por_rango observed sub))"
    unfolding keys by (simp add: labels_sorted_distinct)
  have third: "sorted (map fst (gasto_por_rango observed sub))"
    unfolding keys by (simp add: labels_sorted_distinct sorted_wrt_filter)
  have "m = NaN \<longleftrightarrow> Some l \<notin> set (map RangoEdad sub)"
    if "(l, m) \<in> set (gasto_por_rango observed sub)" for l m
  proof -
    from that have "m = mean (map GastoTotal (filter (\<lambda>r. RangoEdad r = Some l) sub))"
      by (auto simp: gasto_por_rango_def)
    then show ?thesis
      by (auto simp: mean_NaN filter_empty_conv image_iff)
  qed
  then have fourth: "list_all (\<lambda>(l, m). m = NaN \<longleftrightarrow> Some l \<notin> set (map RangoEdad sub))
            (gasto_por_rango observed sub)"
    by (auto simp: list_all_iff)
  from first second third fourth show ?thesis by blast
qed

theorem gasto_por_rango_brackets_witness:
  "\<exists>d g'. cargar_datos demo_rng 2024 (file_of muestra) 0 ''marketing_campaign.csv'' = Inr (d, g')
     \<and> set (df_filtrado (rows d) [''Single'', ''Married''] [''30-39''] [''Hombre'', ''Mujer''])
          \<subseteq> set (rows d)
     \<and> gasto_por_rango True
          (df_filtrado (rows d) [''Single'', ''Married''] [''30-39''] [''Hombre'', ''Mujer''])
         = [(''30-39'', Float 150)]"
  using gasto_por_rango_brackets [OF cargar_muestra, where observed = True and
      sub = "[\<lparr>source = cliente 1990 (Some ''Single'') None (Some 100) None,
               Edad = 34, GastoTotal = 100, EstadoCivil = Some ''Single'',
               Genero = Some ''Hombre'', RangoEdad = Some ''30-39''\<rparr>,
             \<lparr>source = cliente 1985 (Some ''Married'') None None (Some 200),
               Edad = 39, GastoTotal = 200, EstadoCivil = Some ''Married'',
               Genero = Some ''Mujer'', RangoEdad = Some ''30-39''\<rparr>]"]
  by (simp add: cargar_muestra muestra_filtrada gasto_por_rango_def labels_eq mean_def)

text \<open>
  The claim C2 as stated fails with the default \<^verbatim>\<open>observed=False\<close> of pandas 1 and 2: the
  two filtered customers of the sample file are both in bracket 30-39, and the table has
  an entry for each of the eight other brackets as well.
\<close>

theorem gasto_por_rango_counterexample:
  "map_sum id
     (\<lambda>(d, g'). (map RangoEdad
                    (df_filtrado (rows d) [''Single'', ''Married''] [''30-39'']
                       [''Hombre'', ''Mujer'']),
                  gasto_por_rango False
                    (df_filtrado (rows d) [''Single'', ''Married''] [''30-39'']
                       [''Hombre'', ''Mujer''])))
     (cargar_datos demo_rng 2024 (file_of muestra) 0 ''marketing_campaign.csv'')
   = Inr ([Some ''30-39'', Some ''30-39''],
          [(''10-19'', NaN), (''20-29'', NaN), (''30-39'', Float 150), (''40-49'', NaN),
           (''50-59'', NaN), (''60-69'', NaN), (''70-79'', NaN), (''80-89'', NaN),
           (''90-99'', NaN)])"
  by (simp add: cargar_muestra muestra_filtrada gasto_por_rango_def labels_eq mean_def)

text \<open>
  C7, as the script has it. When the filtered frame is empty and the full frame is not,
  the run raises nothing and stops after the metrics: the page holds no figure and no
  insight. Of the metrics, the count is the number 0 and the share of the total the
  number 0, the two means are \<^verbatim>\<open>nan\<close>, and the dominant gender is the literal
  \<^verbatim>\<open>"N/A"\<close>.
\<close>

theorem empty_subset_page:
  assumes "cargar_datos R y fs g ''marketing_campaign.csv'' = Inr (d, g')"
    and "''EstadoCivil'' \<in> set (columns d)"
    and "rows d \<noteq> []"
    and "df_filtrado (rows d) fe fa fg = []"
  shows "main R observed y fs g fe fa fg =
           Inr (Stopped \<lparr>clientes = 0, del_total = 0, gasto_prom = NaN, edad_prom = NaN,
                         genero = NA\<rparr>)"
  using assms
  by (simp add: main_def metricas_def py_div_def genero_dominante_def mean_def)

theorem empty_subset_page_witness:
  "(\<exists>d g'. cargar_datos demo_rng 2024 (file_of muestra) 0 ''marketing_campaign.csv'' = Inr (d, g')
       \<and> ''EstadoCivil'' \<in> set (columns d) \<and> rows d \<noteq> []
       \<and> df_filtrado (rows d) [''Married''] [''30-39''] [''Hombre''] = [])
   \<and> main demo_rng True 2024 (file_of muestra) 0 [''Married''] [''30-39''] [''Hombre''] =
       Inr (Stopped \<lparr>clientes = 0, del_total = 0, gasto_prom = NaN, edad_prom = NaN,
                     genero = NA\<rparr>)"
  using empty_subset_page [OF cargar_muestra, where fe = "[''Married'']" and fa = "[''30-39'']"
      and fg = "[''Hombre'']" and observed = True]
  by (simp add: cargar_muestra df_filtrado_filter)

text \<open>
  The claim C7 as stated fails when every widget is deselected on the sample file: the
  count and the share of the total are shown as the numbers 0 and 0, not as a
  not-applicable value; only the dominant gender is.
\<close>

theorem empty_subset_counterexample:
  "main demo_rng False 2024 (file_of muestra) 0 [] [] [] =
     Inr (Stopped \<lparr>clientes = 0, del_total = 0, gasto_prom = NaN, edad_prom = NaN,
                   genero = NA\<rparr>)"
  by (simp add: main_eval cargar_muestra df_filtrado_filter)

end
